theory Spec2Isabelle
  imports Main "HOL-Library.Sublist"
begin

section \<open>Data model of \<open>compareBranchNode.ts\<close>\<close>

text \<open>
  The class \<open>CompareBranchNode\<close> keeps two private fields (\<open>_children\<close>, \<open>_compareWith\<close>),
  reads and writes the workspace state, asks the git service and signals the view. The node
  is a record that every method takes and returns; the collaborators' state (the persisted
  mapping, the allocator of objects and the trace of calls made) is the record \<open>World\<close>;
  the git service is a record of functions whose \<open>undefined\<close> results are \<open>None\<close>.
  Awaited calls are taken in program order, and a collaborator's promise is taken to resolve:
  the class itself has no \<open>throw\<close> and no \<open>catch\<close>.
\<close>

text \<open>Modelled from the spec: the enumeration \<open>ViewShowBranchComparison\<close> is declared in
  \<open>configuration\<close>; the class names only its member \<open>Working\<close>.\<close>

datatype ViewShowBranchComparison = Working | Branch | Tag

text \<open>Modelled from the spec: the two range notations \<open>..\<close> and \<open>...\<close> of \<open>GitRevision\<close>.\<close>

datatype RangeNotation = TwoDot | ThreeDot

fun notationText :: "RangeNotation \<Rightarrow> string" where
  "notationText TwoDot = ''..''"
| "notationText ThreeDot = ''...''"

text \<open>\<open>BranchComparison\<close> (declared in \<open>constants\<close>): the fields the class reads and writes.\<close>

record BranchComparison =
  cw_ref :: string
  cw_notation :: "RangeNotation option"
  cw_type :: ViewShowBranchComparison

text \<open>
  A JavaScript object is its fields and its identity. The class never assigns to a field of
  a \<open>BranchComparison\<close>: every change builds a new object (an object literal or a spread
  copy). So an object is modelled as its fields (\<open>content\<close>) together with the address it was allocated
  at, and allocation takes the next free address of the world.
\<close>

record BranchComparisonObj =
  address :: nat
  content :: BranchComparison

text \<open>A persisted entry is a bare reference string (the legacy format) or an object.\<close>

datatype StoredComparison = LegacyRef string | Stored BranchComparisonObj

type_synonym BranchComparisons = "string \<rightharpoonup> StoredComparison"

text \<open>\<open>GitBranch\<close> (declared in \<open>git/git\<close>): the fields the class reads.\<close>

record GitBranch =
  b_id :: string
  b_name :: string
  b_ref :: string
  b_repoPath :: string
  b_current :: bool

text \<open>Modelled from the spec: a file status entry of \<open>getDiffStatus\<close>, a file name with its
  status; the class reads the \<open>fileName\<close> only.\<close>

datatype GitFileStatus = Modified | Added | Deleted

record GitFile =
  fileName :: string
  status :: GitFileStatus

text \<open>Modelled from the spec: the log of \<open>getLog\<close>, \<open>{entries, hasMore, more}\<close>: the ordered
  commits fetched so far, whether more exist, and an optional continuation that takes a
  limit and returns a log or \<open>undefined\<close>.\<close>

datatype GitLog = GitLog (commits: "string list") (log_hasMore: bool)
  (log_more: "(nat option \<Rightarrow> GitLog option) option")

record GitService =
  getAheadBehindCommitCount :: "string \<Rightarrow> string list \<Rightarrow> (nat \<times> nat) option"
  getMergeBase :: "string \<Rightarrow> string \<Rightarrow> string \<Rightarrow> bool \<Rightarrow> string option"
  getDiffStatus :: "string \<Rightarrow> string \<Rightarrow> GitFile list option"
  getLog :: "string \<Rightarrow> nat option \<Rightarrow> string \<Rightarrow> GitLog option"

text \<open>The calls that leave the class, in the order they are made.\<close>

datatype Event =
    CountCall string "string list"
  | MergeBaseCall string string string bool
  | DiffStatusCall string string
  | LogCall string "nat option" string
  | WorkspaceUpdate BranchComparisons
  | TriggerNodeChange

record World =
  workspaceState :: "BranchComparisons option"
  heapNext :: nat
  events :: "Event list"

record RangePair =
  ref1 :: string
  ref2 :: string

text \<open>The three file queries are bound methods, the commits query is a closure over the
  repository path and the range: both are kept as data and run by the functions below.\<close>

datatype FilesQuery = BehindFilesQuery | AheadFilesQuery | AllFilesQuery

record CommitsQuery =
  cq_repoPath :: string
  cq_range :: string

record FilesComparison =
  files_ref1 :: string
  files_ref2 :: string
  files_query :: FilesQuery

datatype ViewNode =
    ResultsCommitsNode (rcn_repoPath: string) (rcn_label: string) (rcn_query: CommitsQuery)
      (rcn_comparison: RangePair) (rcn_direction: string) (rcn_files: FilesComparison)
      (rcn_id: string) (rcn_description: string) (rcn_expand: bool)
  | ResultsFilesNode (rfn_repoPath: string) (rfn_ref1: string) (rfn_ref2: string)
      (rfn_query: FilesQuery) (rfn_expand: bool)

record CompareBranchNode =
  uri_repoPath :: string
  branch :: GitBranch
  showComparison :: ViewShowBranchComparison
  root :: bool
  p_children :: "ViewNode list option"
  p_compareWith :: "BranchComparisonObj option"

record FilesQueryResults =
  fq_label :: string
  fq_files :: "GitFile list option"

text \<open>\<open>CommitsQueryResults\<close>: the closure \<open>more\<close> is present or not; its body is
  \<open>results_more\<close> below.\<close>

record CommitsQueryResults =
  cr_log :: "GitLog option"
  cr_hasMore :: bool
  cr_more :: bool

section \<open>Helpers of other modules\<close>

text \<open>The decimal digit of a number below ten.\<close>

definition digit :: "nat \<Rightarrow> char" where
  "digit n = ''0123456789'' ! (n mod 10)"

fun decimal :: "nat \<Rightarrow> string" where
  "decimal n = (if n < 10 then [digit n] else decimal (n div 10) @ [digit (n mod 10)])"

text \<open>Modelled from the spec: \<open>Strings.pluralize\<close> of \<open>system\<close>: the count, then the noun, in
  the singular for one; a zero count is written as the \<open>zero\<close> option when one is given.\<close>

definition pluralize :: "string \<Rightarrow> nat \<Rightarrow> string option \<Rightarrow> string" where
  "pluralize s count zero =
     (if count = 0 then (case zero of Some z \<Rightarrow> z | None \<Rightarrow> decimal count) else decimal count)
       @ '' '' @ (if count = 1 then s else s @ ''s'')"

text \<open>Modelled from the spec: \<open>GitRevision.createRange\<close> of \<open>git/git\<close>: the two references
  around the notation.\<close>

definition createRange :: "string \<Rightarrow> string \<Rightarrow> RangeNotation \<Rightarrow> string" where
  "createRange r1 r2 n = r1 @ notationText n @ r2"

text \<open>The JavaScript \<open>a || b\<close> on strings: the empty string is falsy.\<close>

definition or_else :: "string \<Rightarrow> string \<Rightarrow> string" where
  "or_else a b = (if a = [] then b else a)"

section \<open>The accessors\<close>

text \<open>\<open>this._compareWith?.ref || 'HEAD'\<close>\<close>

definition compareWithRef :: "CompareBranchNode \<Rightarrow> string" where
  "compareWithRef n =
     (case p_compareWith n of None \<Rightarrow> ''HEAD'' | Some c \<Rightarrow> or_else (cw_ref (content c)) ''HEAD'')"

definition ahead :: "CompareBranchNode \<Rightarrow> RangePair" where
  "ahead n = \<lparr>ref1 = compareWithRef n, ref2 = b_ref (branch n)\<rparr>"

definition behind :: "CompareBranchNode \<Rightarrow> RangePair" where
  "behind n = \<lparr>ref1 = b_ref (branch n), ref2 = compareWithRef n\<rparr>"

definition repoPath :: "CompareBranchNode \<Rightarrow> string" where
  "repoPath n = b_repoPath (branch n)"

definition comparisonType :: "CompareBranchNode \<Rightarrow> ViewShowBranchComparison" where
  "comparisonType n =
     (case p_compareWith n of None \<Rightarrow> showComparison n | Some c \<Rightarrow> cw_type (content c))"

definition compareWithWorkingTree :: "CompareBranchNode \<Rightarrow> bool" where
  "compareWithWorkingTree n = (comparisonType n = Working)"

section \<open>The persisted comparisons\<close>

text \<open>The key of a branch in the persisted mapping:
  \<open>`${this.branch.id}${this.branch.current ? '+current' : ''}`\<close>\<close>

definition branchKey :: "GitBranch \<Rightarrow> string" where
  "branchKey b = b_id b @ (if b_current b then ''+current'' else [])"

definition loadCompareWith :: "CompareBranchNode \<Rightarrow> World \<Rightarrow> CompareBranchNode \<times> World" where
  "loadCompareWith n w =
     (let compareWith = (case workspaceState w of None \<Rightarrow> None
                         | Some comparisons \<Rightarrow> comparisons (branchKey (branch n)))
      in case compareWith of
           Some (LegacyRef s) \<Rightarrow>
             (n\<lparr>p_compareWith := Some \<lparr>address = heapNext w,
                  content = \<lparr>cw_ref = s, cw_notation = None, cw_type = showComparison n\<rparr>\<rparr>\<rparr>,
              w\<lparr>heapNext := Suc (heapNext w)\<rparr>)
         | Some (Stored c) \<Rightarrow> (n\<lparr>p_compareWith := Some c\<rparr>, w)
         | None \<Rightarrow> (n\<lparr>p_compareWith := None\<rparr>, w))"

definition updateCompareWith ::
  "BranchComparisonObj option \<Rightarrow> CompareBranchNode \<Rightarrow> World \<Rightarrow> CompareBranchNode \<times> World" where
  "updateCompareWith compareWith n w =
     (let n1 = n\<lparr>p_compareWith := compareWith\<rparr>;
          comparisons = (case workspaceState w of None \<Rightarrow> Map.empty | Some m \<Rightarrow> m);
          key = branchKey (branch n)
      in case compareWith of
           Some c \<Rightarrow>
             (let comparisons1 = comparisons(key \<mapsto> Stored \<lparr>address = heapNext w, content = content c\<rparr>)
              in (n1, w\<lparr>workspaceState := Some comparisons1, heapNext := Suc (heapNext w),
                       events := events w @ [WorkspaceUpdate comparisons1]\<rparr>))
         | None \<Rightarrow>
             (let rest = comparisons(key := None)
              in (n1, w\<lparr>workspaceState := Some rest,
                       events := events w @ [WorkspaceUpdate rest]\<rparr>)))"

text \<open>The constructor: the fields, then \<open>loadCompareWith\<close>.\<close>

definition construct ::
  "string \<Rightarrow> GitBranch \<Rightarrow> ViewShowBranchComparison \<Rightarrow> bool \<Rightarrow> World \<Rightarrow> CompareBranchNode \<times> World" where
  "construct uriPath b sc r w =
     loadCompareWith \<lparr>uri_repoPath = uriPath, branch = b, showComparison = sc, root = r,
                      p_children = None, p_compareWith = None\<rparr> w"

section \<open>clear and refresh\<close>

definition clear :: "CompareBranchNode \<Rightarrow> World \<Rightarrow> CompareBranchNode \<times> World" where
  "clear n w =
     (case p_compareWith n of
        None \<Rightarrow> (n, w)
      | Some _ \<Rightarrow>
          (let n1 = n\<lparr>p_compareWith := None\<rparr>;
               (n2, w2) = updateCompareWith None n1 w;
               n3 = n2\<lparr>p_children := None\<rparr>
           in (n3, w2\<lparr>events := events w2 @ [TriggerNodeChange]\<rparr>)))"

definition refresh :: "CompareBranchNode \<Rightarrow> World \<Rightarrow> CompareBranchNode \<times> World" where
  "refresh n w = loadCompareWith (n\<lparr>p_children := None\<rparr>) w"

section \<open>The queries\<close>

definition callDiffStatus ::
  "GitService \<Rightarrow> string \<Rightarrow> string \<Rightarrow> World \<Rightarrow> GitFile list option \<times> World" where
  "callDiffStatus git repo expr w =
     (getDiffStatus git repo expr, w\<lparr>events := events w @ [DiffStatusCall repo expr]\<rparr>)"

definition callMergeBase ::
  "GitService \<Rightarrow> string \<Rightarrow> string \<Rightarrow> string \<Rightarrow> bool \<Rightarrow> World \<Rightarrow> string option \<times> World" where
  "callMergeBase git repo r1 r2 forkPoint w =
     (getMergeBase git repo r1 r2 forkPoint,
      w\<lparr>events := events w @ [MergeBaseCall repo r1 r2 forkPoint]\<rparr>)"

definition filesResult :: "GitFile list option \<Rightarrow> FilesQueryResults" where
  "filesResult files =
     \<lparr>fq_label = pluralize ''file'' (case files of None \<Rightarrow> 0 | Some fs \<Rightarrow> length fs) (Some ''No'')
                   @ '' changed'',
      fq_files = files\<rparr>"

text \<open>\<open>Array.prototype.findIndex\<close>: the first index whose element satisfies the predicate;
  \<open>None\<close> is the source's \<open>-1\<close>.\<close>

fun findIndex :: "('a \<Rightarrow> bool) \<Rightarrow> 'a list \<Rightarrow> nat option" where
  "findIndex p [] = None"
| "findIndex p (x # xs) = (if p x then Some 0 else map_option Suc (findIndex p xs))"

text \<open>The body of the loop over the working files: \<open>splice(index, 1, wf)\<close> at an index that
  \<open>findIndex\<close> returned replaces that one element; \<open>push\<close> appends.\<close>

definition overlayFile :: "GitFile list \<Rightarrow> GitFile \<Rightarrow> GitFile list" where
  "overlayFile files workingFile =
     (case findIndex (\<lambda>f. fileName f = fileName workingFile) files of
        Some index \<Rightarrow> files[index := workingFile]
      | None \<Rightarrow> files @ [workingFile])"

fun overlay :: "GitFile list \<Rightarrow> GitFile list \<Rightarrow> GitFile list" where
  "overlay files [] = files"
| "overlay files (workingFile # workingFiles) = overlay (overlayFile files workingFile) workingFiles"

definition getAheadFilesQuery ::
  "GitService \<Rightarrow> CompareBranchNode \<Rightarrow> World \<Rightarrow> FilesQueryResults \<times> World" where
  "getAheadFilesQuery git n w =
     (let (files, w1) = callDiffStatus git (repoPath n)
             (createRange (compareWithRef n) (or_else (b_ref (branch n)) ''HEAD'') ThreeDot) w
      in if compareWithWorkingTree n then
           (let (workingFiles, w2) = callDiffStatus git (repoPath n) ''HEAD'' w1
            in case workingFiles of
                 Some wfs \<Rightarrow>
                   (case files of
                      Some fs \<Rightarrow> (filesResult (Some (overlay fs wfs)), w2)
                    | None \<Rightarrow> (filesResult (Some wfs), w2))
               | None \<Rightarrow> (filesResult files, w2))
         else (filesResult files, w1))"

definition getBehindFilesQuery ::
  "GitService \<Rightarrow> CompareBranchNode \<Rightarrow> World \<Rightarrow> FilesQueryResults \<times> World" where
  "getBehindFilesQuery git n w =
     (let (files, w1) = callDiffStatus git (uri_repoPath n)
             (createRange (b_ref (branch n)) (compareWithRef n) ThreeDot) w
      in (filesResult files, w1))"

text \<open>\<open>getFilesQuery\<close> reads \<open>this._compareWith!\<close>: it is bound into a child only when the
  target is set, so it takes the target.\<close>

definition getFilesQuery ::
  "GitService \<Rightarrow> CompareBranchNode \<Rightarrow> BranchComparisonObj \<Rightarrow> World \<Rightarrow> FilesQueryResults \<times> World" where
  "getFilesQuery git n cw w =
     (let comparison =
            (if cw_ref (content cw) = [] then b_ref (branch n)
             else if compareWithWorkingTree n then cw_ref (content cw)
             else cw_ref (content cw) @ ''...'' @ b_ref (branch n));
          (files, w1) = callDiffStatus git (uri_repoPath n) comparison w
      in (filesResult files, w1))"

definition getCommitsQuery :: "CompareBranchNode \<Rightarrow> string \<Rightarrow> CommitsQuery" where
  "getCommitsQuery n rng = \<lparr>cq_repoPath = uri_repoPath n, cq_range = rng\<rparr>"

text \<open>\<open>log?.hasMore ?? true\<close>\<close>

definition hasMoreOf :: "GitLog option \<Rightarrow> bool" where
  "hasMoreOf log = (case log of None \<Rightarrow> True | Some l \<Rightarrow> log_hasMore l)"

text \<open>Running the closure that \<open>getCommitsQuery\<close> returns.\<close>

definition runCommitsQuery ::
  "GitService \<Rightarrow> CommitsQuery \<Rightarrow> nat option \<Rightarrow> World \<Rightarrow> CommitsQueryResults \<times> World" where
  "runCommitsQuery git q limit w =
     (let log = getLog git (cq_repoPath q) limit (cq_range q);
          hasMore = hasMoreOf log
      in (\<lparr>cr_log = log, cr_hasMore = hasMore, cr_more = hasMore\<rparr>,
          w\<lparr>events := events w @ [LogCall (cq_repoPath q) limit (cq_range q)]\<rparr>))"

text \<open>\<open>await results.log?.more?.(limit)\<close>\<close>

definition logMore :: "GitLog option \<Rightarrow> nat option \<Rightarrow> GitLog option" where
  "logMore log limit =
     (case log of None \<Rightarrow> None
      | Some l \<Rightarrow> (case log_more l of None \<Rightarrow> None | Some f \<Rightarrow> f limit))"

text \<open>The body of \<open>results.more\<close>, on the results object it closes over.\<close>

definition results_more :: "nat option \<Rightarrow> CommitsQueryResults \<Rightarrow> CommitsQueryResults" where
  "results_more limit results =
     (let log1 = (case logMore (cr_log results) limit of Some l \<Rightarrow> Some l | None \<Rightarrow> cr_log results)
      in results\<lparr>cr_log := log1, cr_hasMore := hasMoreOf log1\<rparr>)"

text \<open>The entries a results object holds.\<close>

definition entries :: "CommitsQueryResults \<Rightarrow> string list" where
  "entries results = (case cr_log results of None \<Rightarrow> [] | Some l \<Rightarrow> commits l)"

section \<open>getChildren\<close>

text \<open>The merge base: \<open>getMergeBase(..., { forkPoint: true }) ?? getMergeBase(...)\<close>.\<close>

definition resolveMergeBase ::
  "GitService \<Rightarrow> string \<Rightarrow> string \<Rightarrow> string \<Rightarrow> World \<Rightarrow> string option \<times> World" where
  "resolveMergeBase git repo r1 r2 w =
     (let (forkPointBase, w1) = callMergeBase git repo r1 r2 True w
      in case forkPointBase of
           Some m \<Rightarrow> (Some m, w1)
         | None \<Rightarrow> callMergeBase git repo r1 r2 False w1)"

text \<open>\<open>mergeBase ?? r\<close>\<close>

definition orRef :: "string option \<Rightarrow> string \<Rightarrow> string" where
  "orRef mergeBase r = (case mergeBase of Some m \<Rightarrow> m | None \<Rightarrow> r)"

definition buildChildren ::
  "CompareBranchNode \<Rightarrow> BranchComparisonObj \<Rightarrow> (nat \<times> nat) option \<Rightarrow> string option \<Rightarrow> ViewNode list" where
  "buildChildren n cw aheadBehindCounts mergeBase =
     (let a = ahead n; b = behind n in
      [ResultsCommitsNode (uri_repoPath n) ''Behind''
         (getCommitsQuery n (createRange (ref1 b) (ref2 b) TwoDot))
         b ''behind''
         \<lparr>files_ref1 = (if compareWithWorkingTree n then [] else orRef mergeBase (ref1 b)),
          files_ref2 = ref2 b,
          files_query = BehindFilesQuery\<rparr>
         ''behind''
         (pluralize ''commit'' (case aheadBehindCounts of None \<Rightarrow> 0 | Some c \<Rightarrow> snd c) None)
         False,
       ResultsCommitsNode (uri_repoPath n) ''Ahead''
         (getCommitsQuery n
            (createRange (ref1 a) (if compareWithWorkingTree n then [] else ref2 a) TwoDot))
         a ''ahead''
         \<lparr>files_ref1 = orRef mergeBase (ref1 a),
          files_ref2 = (if compareWithWorkingTree n then [] else ref2 a),
          files_query = AheadFilesQuery\<rparr>
         ''ahead''
         (pluralize ''commit'' (case aheadBehindCounts of None \<Rightarrow> 0 | Some c \<Rightarrow> fst c) None)
         False,
       ResultsFilesNode (uri_repoPath n)
         (or_else (cw_ref (content cw)) ''HEAD'')
         (if compareWithWorkingTree n then [] else b_ref (branch n))
         AllFilesQuery False])"

definition getChildren ::
  "GitService \<Rightarrow> CompareBranchNode \<Rightarrow> World \<Rightarrow> ViewNode list \<times> CompareBranchNode \<times> World" where
  "getChildren git n w =
     (case p_compareWith n of
        None \<Rightarrow> ([], n, w)
      | Some cw \<Rightarrow>
          (case p_children n of
             Some cs \<Rightarrow> (cs, n, w)
           | None \<Rightarrow>
               (let b = behind n;
                    ranges = [createRange (ref1 b) (ref2 b) ThreeDot];
                    aheadBehindCounts = getAheadBehindCommitCount git (b_repoPath (branch n)) ranges;
                    w1 = w\<lparr>events := events w @ [CountCall (b_repoPath (branch n)) ranges]\<rparr>;
                    (mergeBase, w2) = resolveMergeBase git (repoPath n) (ref1 b) (ref2 b) w1;
                    cs = buildChildren n cw aheadBehindCounts mergeBase
                in (cs, n\<lparr>p_children := Some cs\<rparr>, w2))))"


section \<open>What the theorems speak about\<close>

text \<open>The persisted mapping as \<open>updateCompareWith\<close> reads it: an absent mapping is taken as
  the empty one.\<close>

definition persisted :: "World \<Rightarrow> BranchComparisons" where
  "persisted w = (case workspaceState w of None \<Rightarrow> Map.empty | Some m \<Rightarrow> m)"

text \<open>The persisted entry of a node's branch, as \<open>loadCompareWith\<close> looks it up.\<close>

definition persistedEntry :: "CompareBranchNode \<Rightarrow> World \<Rightarrow> StoredComparison option" where
  "persistedEntry n w = persisted w (branchKey (branch n))"

text \<open>The two diff-status results that the ahead-files query asks for.\<close>

definition historicalFiles :: "GitService \<Rightarrow> CompareBranchNode \<Rightarrow> GitFile list option" where
  "historicalFiles git n =
     getDiffStatus git (repoPath n)
       (createRange (compareWithRef n) (or_else (b_ref (branch n)) ''HEAD'') ThreeDot)"

definition workingTreeFiles :: "GitService \<Rightarrow> CompareBranchNode \<Rightarrow> GitFile list option" where
  "workingTreeFiles git n = getDiffStatus git (repoPath n) ''HEAD''"

text \<open>The overlay in the spec's words, to compare \<open>overlay\<close> with: every historical entry
  is replaced by the working-tree entry of the same file name when there is one and is left
  as it is otherwise, in its place; then the working-tree entries whose file name is not in
  the historical set follow, in their order.\<close>

definition overlay_by_filename :: "GitFile list \<Rightarrow> GitFile list \<Rightarrow> GitFile list" where
  "overlay_by_filename files workingFiles =
     map (\<lambda>f. case find (\<lambda>x. fileName x = fileName f) workingFiles of
                Some x \<Rightarrow> x | None \<Rightarrow> f) files
     @ filter (\<lambda>x. fileName x \<notin> fileName ` set files) workingFiles"

section \<open>Concrete inputs\<close>

definition exBranch :: GitBranch where
  "exBranch = \<lparr>b_id = ''/repo|heads/feature'', b_name = ''feature'', b_ref = ''feature'',
                b_repoPath = ''/repo'', b_current = True\<rparr>"

definition exPlusBranch :: GitBranch where
  "exPlusBranch = \<lparr>b_id = ''/repo|heads/feature+current'', b_name = ''feature+current'',
                    b_ref = ''feature+current'', b_repoPath = ''/repo'', b_current = False\<rparr>"

definition exTarget :: BranchComparisonObj where
  "exTarget = \<lparr>address = 0, content = \<lparr>cw_ref = ''main'', cw_notation = None, cw_type = Branch\<rparr>\<rparr>"

definition exWorkingTarget :: BranchComparisonObj where
  "exWorkingTarget =
     \<lparr>address = 0, content = \<lparr>cw_ref = ''main'', cw_notation = None, cw_type = Working\<rparr>\<rparr>"

definition exNode :: CompareBranchNode where
  "exNode = \<lparr>uri_repoPath = ''/repo'', branch = exBranch, showComparison = Branch, root = False,
              p_children = None, p_compareWith = None\<rparr>"

definition exConfigured :: CompareBranchNode where
  "exConfigured = exNode\<lparr>p_compareWith := Some exTarget\<rparr>"

definition exWorkingNode :: CompareBranchNode where
  "exWorkingNode = exNode\<lparr>p_compareWith := Some exWorkingTarget\<rparr>"

definition exWorld :: World where
  "exWorld = \<lparr>workspaceState = Some [branchKey exBranch \<mapsto> Stored exTarget,
                                       ''/repo|heads/other'' \<mapsto> LegacyRef ''develop''],
               heapNext = 1, events = []\<rparr>"

definition exLegacyWorld :: World where
  "exLegacyWorld = \<lparr>workspaceState = Some [branchKey exBranch \<mapsto> LegacyRef ''main''],
                     heapNext = 0, events = []\<rparr>"

definition exEmptyWorld :: World where
  "exEmptyWorld = \<lparr>workspaceState = None, heapNext = 0, events = []\<rparr>"

definition fileA :: GitFile where "fileA = \<lparr>fileName = ''A'', status = Modified\<rparr>"
definition fileB :: GitFile where "fileB = \<lparr>fileName = ''B'', status = Added\<rparr>"
definition fileB' :: GitFile where "fileB' = \<lparr>fileName = ''B'', status = Deleted\<rparr>"
definition fileC :: GitFile where "fileC = \<lparr>fileName = ''C'', status = Added\<rparr>"

text \<open>A log of two commits with one more page. The second page reports that there is no
  more, and carries a continuation all the same; asked again (the history of a shallow
  repository was deepened since), the continuation returns one more commit.\<close>

definition exLog3 :: GitLog where
  "exLog3 = GitLog [''c3'', ''c2'', ''c1'', ''c0''] False None"

definition exLog2 :: GitLog where
  "exLog2 = GitLog [''c3'', ''c2'', ''c1''] False (Some (\<lambda>limit. Some exLog3))"

definition exLog1 :: GitLog where
  "exLog1 = GitLog [''c3'', ''c2''] True (Some (\<lambda>limit. Some exLog2))"

text \<open>A git service of a repository with unrelated histories (no merge base), with the
  file statuses of the spec's overlay example.\<close>

definition exGit :: GitService where
  "exGit = \<lparr>getAheadBehindCommitCount = (\<lambda>repo ranges. Some (2, 1)),
             getMergeBase = (\<lambda>repo r1 r2 forkPoint. None),
             getDiffStatus = (\<lambda>repo expr. if expr = ''HEAD'' then Some [fileB', fileC]
                                            else Some [fileA, fileB]),
             getLog = (\<lambda>repo limit rng. Some exLog1)\<rparr>"

text \<open>A git service whose fork-point merge base is missing and whose plain one exists, and
  one with no historical diff status.\<close>

definition exGitPlainBase :: GitService where
  "exGitPlainBase = exGit\<lparr>getMergeBase := (\<lambda>repo r1 r2 forkPoint.
                              if forkPoint then None else Some ''abc123'')\<rparr>"

definition exGitNoHistory :: GitService where
  "exGitNoHistory = exGit\<lparr>getDiffStatus := (\<lambda>repo expr.
                              if expr = ''HEAD'' then Some [fileB', fileC] else None)\<rparr>"


text \<open>A git service with no working-tree diff status, and a configured node with cached
  children.\<close>

definition exGitNoWorking :: GitService where
  "exGitNoWorking = exGit\<lparr>getDiffStatus := (\<lambda>repo expr.
                              if expr = ''HEAD'' then None else Some [fileA, fileB])\<rparr>"

definition exCachedNode :: CompareBranchNode where
  "exCachedNode = exConfigured\<lparr>p_children := Some []\<rparr>"

text \<open>The results of the commits query of the configured node, first page.\<close>

definition exResults :: CommitsQueryResults where
  "exResults = fst (runCommitsQuery exGit (getCommitsQuery exConfigured ''main..feature'')
                      (Some 2) exEmptyWorld)"

section \<open>Theorems\<close>

lemmas model_defs = or_else_def compareWithRef_def ahead_def behind_def repoPath_def
  comparisonType_def compareWithWorkingTree_def branchKey_def loadCompareWith_def
  updateCompareWith_def clear_def refresh_def callDiffStatus_def callMergeBase_def
  filesResult_def overlayFile_def getAheadFilesQuery_def getCommitsQuery_def hasMoreOf_def
  runCommitsQuery_def logMore_def results_more_def entries_def resolveMergeBase_def orRef_def
  buildChildren_def getChildren_def createRange_def persisted_def persistedEntry_def
  historicalFiles_def workingTreeFiles_def

lemmas example_defs = exBranch_def exPlusBranch_def exTarget_def exWorkingTarget_def exNode_def
  exConfigured_def exWorkingNode_def exWorld_def exLegacyWorld_def exEmptyWorld_def
  exLog1_def exLog2_def exLog3_def exGit_def exGitPlainBase_def exGitNoHistory_def
  exGitNoWorking_def exCachedNode_def exResults_def fileA_def fileB_def fileB'_def fileC_def

subsection \<open>The ahead and behind pairs\<close>

text \<open>
  Claim C4. In every node state the two accessors are inverses of each other:
  \<open>ahead.ref1 = behind.ref2\<close> and \<open>ahead.ref2 = behind.ref1\<close>. The base side is the branch's
  ref; the compare-with side is \<open>HEAD\<close> when no target is set or its ref is the empty string,
  and the target's ref otherwise.
\<close>

theorem ahead_behind_inverse:
  "ref1 (ahead n) = ref2 (behind n) \<and> ref2 (ahead n) = ref1 (behind n) \<and>
   ref2 (ahead n) = b_ref (branch n) \<and>
   (p_compareWith n = None \<longrightarrow> ref1 (ahead n) = ''HEAD'') \<and>
   (\<forall>c. p_compareWith n = Some c \<longrightarrow>
      ref1 (ahead n) = (if cw_ref (content c) = [] then ''HEAD'' else cw_ref (content c)))"
  by (simp add: ahead_def behind_def compareWithRef_def or_else_def)

text \<open>The accessors on a node without a target and on one compared with \<open>main\<close>.\<close>

theorem ahead_behind_inverse_witness:
  "ref1 (ahead exNode) = ''HEAD'' \<and> ref2 (behind exNode) = ''HEAD'' \<and>
   ref2 (ahead exNode) = ''feature'' \<and> ref1 (behind exNode) = ''feature'' \<and>
   ref1 (ahead exConfigured) = ''main'' \<and> ref2 (behind exConfigured) = ''main''"
  using ahead_behind_inverse [of exNode] ahead_behind_inverse [of exConfigured]
  by (simp add: exNode_def exConfigured_def exTarget_def exBranch_def
      ahead_def behind_def compareWithRef_def or_else_def)

subsection \<open>The key of a branch\<close>

text \<open>
  Claim C5, as the code has it. The key of a branch taken as current differs from its key
  taken as not current. Two branches with the same current flag have the same key exactly
  when they have the same id; a current branch and one that is not current have the same key
  exactly when the id of the second is the id of the first followed by \<open>+current\<close>.
\<close>

theorem branchKey_distinct:
  "branchKey (x\<lparr>b_current := True\<rparr>) \<noteq> branchKey (x\<lparr>b_current := False\<rparr>) \<and>
   (b_current a = b_current b \<longrightarrow> (branchKey a = branchKey b \<longleftrightarrow> b_id a = b_id b)) \<and>
   (b_current a \<and> \<not> b_current b \<longrightarrow>
      (branchKey a = branchKey b \<longleftrightarrow> b_id b = b_id a @ ''+current''))"
  by (auto simp add: branchKey_def)

theorem branchKey_distinct_witness:
  "branchKey (exBranch\<lparr>b_current := True\<rparr>) \<noteq> branchKey (exBranch\<lparr>b_current := False\<rparr>) \<and>
   b_current (exBranch\<lparr>b_current := False\<rparr>) = b_current exPlusBranch \<and>
   branchKey (exBranch\<lparr>b_current := False\<rparr>) \<noteq> branchKey exPlusBranch \<and>
   b_current exBranch \<and> \<not> b_current exPlusBranch \<and>
   b_id exPlusBranch = b_id exBranch @ ''+current''"
  using branchKey_distinct [of exBranch "exBranch\<lparr>b_current := False\<rparr>" exPlusBranch]
    branchKey_distinct [of exBranch exBranch exPlusBranch]
  by (simp add: exBranch_def exPlusBranch_def branchKey_def)

text \<open>
  Claim C5 as stated fails: the checked-out branch \<open>feature\<close> and the branch
  \<open>feature+current\<close>, which is not checked out, are different branches with one key.
\<close>

theorem branchKey_collision:
  "b_id exBranch \<noteq> b_id exPlusBranch \<and> b_name exBranch \<noteq> b_name exPlusBranch \<and>
   b_current exBranch \<and> \<not> b_current exPlusBranch \<and>
   branchKey exBranch = branchKey exPlusBranch"
  by (simp add: branchKey_def exBranch_def exPlusBranch_def)

subsection \<open>Loading, refreshing, clearing and updating the persisted comparison\<close>

text \<open>
  Claim C8. Loading normalizes a legacy entry: a persisted bare string \<open>s\<close> (such as
  \<open>main\<close>) loads as the target with ref \<open>s\<close>, no notation and the node's default mode; a
  persisted object loads as that same object; a missing entry loads as no target.
\<close>

theorem loadCompareWith_normalizes:
  "(persistedEntry n w = Some (LegacyRef s) \<longrightarrow>
      map_option content (p_compareWith (fst (loadCompareWith n w))) =
        Some \<lparr>cw_ref = s, cw_notation = None, cw_type = showComparison n\<rparr>) \<and>
   (persistedEntry n w = Some (Stored c) \<longrightarrow> p_compareWith (fst (loadCompareWith n w)) = Some c) \<and>
   (persistedEntry n w = None \<longrightarrow> p_compareWith (fst (loadCompareWith n w)) = None)"
  by (simp add: loadCompareWith_def persistedEntry_def persisted_def split: option.splits)

theorem loadCompareWith_normalizes_witness:
  "persistedEntry exNode exLegacyWorld = Some (LegacyRef ''main'') \<and>
   map_option content (p_compareWith (fst (loadCompareWith exNode exLegacyWorld))) =
     Some \<lparr>cw_ref = ''main'', cw_notation = None, cw_type = Branch\<rparr> \<and>
   persistedEntry exNode exWorld = Some (Stored exTarget) \<and>
   p_compareWith (fst (loadCompareWith exNode exWorld)) = Some exTarget \<and>
   persistedEntry exNode exEmptyWorld = None \<and>
   p_compareWith (fst (loadCompareWith exConfigured exEmptyWorld)) = None"
  using loadCompareWith_normalizes [of exNode exLegacyWorld "''main''"]
    loadCompareWith_normalizes [of exNode exWorld _ exTarget]
    loadCompareWith_normalizes [of exConfigured exEmptyWorld]
  by (simp add: persistedEntry_def persisted_def exLegacyWorld_def exWorld_def exEmptyWorld_def
      exNode_def exConfigured_def loadCompareWith_def branchKey_def exBranch_def)

text \<open>
  Claim C10. \<open>refresh()\<close> drops the cached children and reads the persisted mapping again:
  afterwards the target in memory is the persisted entry of the branch's key, a legacy
  string normalized with the node's default mode and a persisted object taken as it is, and
  there is no target when there is no entry. The persisted mapping is not written.
\<close>

theorem refresh_reloads:
  "p_children (fst (refresh n w)) = None \<and>
   map_option content (p_compareWith (fst (refresh n w))) =
     (case persistedEntry n (snd (refresh n w)) of
        None \<Rightarrow> None
      | Some (LegacyRef s) \<Rightarrow> Some \<lparr>cw_ref = s, cw_notation = None, cw_type = showComparison n\<rparr>
      | Some (Stored c) \<Rightarrow> Some (content c)) \<and>
   (\<forall>c. persistedEntry n (snd (refresh n w)) = Some (Stored c) \<longrightarrow>
        p_compareWith (fst (refresh n w)) = Some c) \<and>
   branch (fst (refresh n w)) = branch n \<and>
   workspaceState (snd (refresh n w)) = workspaceState w \<and>
   events (snd (refresh n w)) = events w"
  by (simp add: refresh_def loadCompareWith_def persistedEntry_def persisted_def
      split: option.splits StoredComparison.splits)

theorem refresh_reloads_witness:
  "p_children (fst (refresh exCachedNode exLegacyWorld)) = None \<and>
   map_option content (p_compareWith (fst (refresh exCachedNode exLegacyWorld))) =
     Some \<lparr>cw_ref = ''main'', cw_notation = None, cw_type = Branch\<rparr> \<and>
   p_compareWith (fst (refresh exCachedNode exWorld)) = Some exTarget \<and>
   p_compareWith (fst (refresh exCachedNode exEmptyWorld)) = None"
  using refresh_reloads [of exCachedNode exLegacyWorld] refresh_reloads [of exCachedNode exWorld]
    refresh_reloads [of exCachedNode exEmptyWorld]
  by (simp add: refresh_def loadCompareWith_def persistedEntry_def persisted_def
      exCachedNode_def exConfigured_def exNode_def exLegacyWorld_def exWorld_def
      exEmptyWorld_def branchKey_def exBranch_def)

text \<open>
  Claim C6. \<open>clear()\<close> on a node without a target changes nothing: the node (target and
  cached children) and the world (persisted mapping, calls made) are as before, so nothing is
  written and no refresh is signalled. On a node with a target it removes the target and the
  cached children, writes the persisted mapping without the entry of the branch's key, and
  then signals the refresh.
\<close>

theorem clear_effect:
  "(p_compareWith n = None \<longrightarrow> clear n w = (n, w)) \<and>
   (p_compareWith n \<noteq> None \<longrightarrow>
      fst (clear n w) = n\<lparr>p_compareWith := None, p_children := None\<rparr> \<and>
      workspaceState (snd (clear n w)) = Some ((persisted w)(branchKey (branch n) := None)) \<and>
      persistedEntry n (snd (clear n w)) = None \<and>
      heapNext (snd (clear n w)) = heapNext w \<and>
      events (snd (clear n w)) =
        events w @ [WorkspaceUpdate ((persisted w)(branchKey (branch n) := None)),
                    TriggerNodeChange])"
  by (auto simp add: clear_def updateCompareWith_def persistedEntry_def persisted_def Let_def
      split: option.splits)

theorem clear_effect_witness:
  "p_compareWith (exNode\<lparr>p_children := Some []\<rparr>) = None \<and>
   clear (exNode\<lparr>p_children := Some []\<rparr>) exWorld = (exNode\<lparr>p_children := Some []\<rparr>, exWorld) \<and>
   p_compareWith exCachedNode \<noteq> None \<and>
   p_compareWith (fst (clear exCachedNode exWorld)) = None \<and>
   p_children (fst (clear exCachedNode exWorld)) = None \<and>
   persistedEntry exCachedNode (snd (clear exCachedNode exWorld)) = None \<and>
   persisted (snd (clear exCachedNode exWorld)) ''/repo|heads/other'' = Some (LegacyRef ''develop'') \<and>
   length (events (snd (clear exCachedNode exWorld))) = 2 \<and>
   last (events (snd (clear exCachedNode exWorld))) = TriggerNodeChange"
  using clear_effect [of "exNode\<lparr>p_children := Some []\<rparr>" exWorld]
    clear_effect [of exCachedNode exWorld]
  by (simp add: exCachedNode_def exConfigured_def exNode_def exWorld_def persisted_def
      branchKey_def exBranch_def)

text \<open>
  Claim C7. Updating the stored comparison of a branch reads the whole persisted mapping and
  writes it back once. With a target, the entry of the branch's key becomes a new object with
  the target's fields: it is allocated at the next free address, so it is not the target
  object nor any object that existed before. Without a target, the entry is removed from the
  mapping. In both cases the entry of every other key is as it was.
\<close>

theorem updateCompareWith_store:
  "p_compareWith (fst (updateCompareWith t n w)) = t \<and>
   (\<forall>c. t = Some c \<longrightarrow>
      persistedEntry n (snd (updateCompareWith t n w)) =
        Some (Stored \<lparr>address = heapNext w, content = content c\<rparr>) \<and>
      heapNext (snd (updateCompareWith t n w)) = Suc (heapNext w) \<and>
      (address c < heapNext w \<longrightarrow>
         (\<forall>obj. persistedEntry n (snd (updateCompareWith t n w)) = Some (Stored obj) \<longrightarrow>
            address obj \<noteq> address c))) \<and>
   (t = None \<longrightarrow>
      persistedEntry n (snd (updateCompareWith t n w)) = None \<and>
      branchKey (branch n) \<notin> dom (persisted (snd (updateCompareWith t n w)))) \<and>
   (\<forall>k. k \<noteq> branchKey (branch n) \<longrightarrow>
      persisted (snd (updateCompareWith t n w)) k = persisted w k) \<and>
   workspaceState (snd (updateCompareWith t n w)) =
     Some (persisted (snd (updateCompareWith t n w))) \<and>
   events (snd (updateCompareWith t n w)) =
     events w @ [WorkspaceUpdate (persisted (snd (updateCompareWith t n w)))]"
  by (cases t) (auto simp add: updateCompareWith_def persistedEntry_def persisted_def Let_def
      split: option.splits)

theorem updateCompareWith_store_witness:
  "address exWorkingTarget < heapNext exWorld \<and>
   persistedEntry exNode (snd (updateCompareWith (Some exWorkingTarget) exNode exWorld)) =
     Some (Stored \<lparr>address = 1, content = content exWorkingTarget\<rparr>) \<and>
   persistedEntry exNode (snd (updateCompareWith (Some exWorkingTarget) exNode exWorld)) \<noteq>
     Some (Stored exWorkingTarget) \<and>
   persisted (snd (updateCompareWith (Some exWorkingTarget) exNode exWorld)) ''/repo|heads/other'' =
     Some (LegacyRef ''develop'') \<and>
   persistedEntry exNode (snd (updateCompareWith None exNode exWorld)) = None \<and>
   persisted (snd (updateCompareWith None exNode exWorld)) ''/repo|heads/other'' =
     Some (LegacyRef ''develop'')"
  using updateCompareWith_store [of "Some exWorkingTarget" exNode exWorld]
    updateCompareWith_store [of None exNode exWorld]
  by (simp add: exWorkingTarget_def exWorld_def exNode_def persisted_def branchKey_def
      exBranch_def)

subsection \<open>The ahead-files query\<close>

text \<open>
  Claim C9. In the ahead-files query that compares with the working tree: when there is no
  historical diff status and the working tree has one, the files are the working tree's
  sequence; when the working tree has none, the files are the historical result, absent or
  not. The query returns in every case, and its label counts an absent result as zero files.
\<close>

theorem aheadFiles_absent_sides:
  "compareWithWorkingTree n \<Longrightarrow>
   (\<forall>wfs. historicalFiles git n = None \<longrightarrow> workingTreeFiles git n = Some wfs \<longrightarrow>
      fq_files (fst (getAheadFilesQuery git n w)) = Some wfs) \<and>
   (workingTreeFiles git n = None \<longrightarrow>
      fq_files (fst (getAheadFilesQuery git n w)) = historicalFiles git n) \<and>
   fq_label (fst (getAheadFilesQuery git n w)) =
     pluralize ''file''
       (case fq_files (fst (getAheadFilesQuery git n w)) of None \<Rightarrow> 0 | Some fs \<Rightarrow> length fs)
       (Some ''No'') @ '' changed''"
  by (simp add: getAheadFilesQuery_def callDiffStatus_def filesResult_def historicalFiles_def
      workingTreeFiles_def split: option.splits)

theorem aheadFiles_absent_sides_witness:
  "compareWithWorkingTree exWorkingNode \<and>
   historicalFiles exGitNoHistory exWorkingNode = None \<and>
   workingTreeFiles exGitNoHistory exWorkingNode = Some [fileB', fileC] \<and>
   fq_files (fst (getAheadFilesQuery exGitNoHistory exWorkingNode exEmptyWorld)) = Some [fileB', fileC] \<and>
   workingTreeFiles exGitNoWorking exWorkingNode = None \<and>
   fq_files (fst (getAheadFilesQuery exGitNoWorking exWorkingNode exEmptyWorld)) = Some [fileA, fileB]"
proof -
  have wt: "compareWithWorkingTree exWorkingNode"
    by (simp add: compareWithWorkingTree_def comparisonType_def exWorkingNode_def
        exWorkingTarget_def exNode_def)
  show ?thesis
    using wt aheadFiles_absent_sides [OF wt, of exGitNoHistory exEmptyWorld]
      aheadFiles_absent_sides [OF wt, of exGitNoWorking exEmptyWorld]
    by (simp add: model_defs exWorkingNode_def exWorkingTarget_def exNode_def exBranch_def
        exGitNoHistory_def exGitNoWorking_def exGit_def exEmptyWorld_def)
qed

subsection \<open>The overlay of the working-tree files\<close>

lemma findIndex_None: "findIndex p xs = None \<longleftrightarrow> (\<forall>x\<in>set xs. \<not> p x)"
  by (induction xs) auto

lemma findIndex_Some:
  "findIndex p xs = Some i \<longleftrightarrow> i < length xs \<and> p (xs ! i) \<and> (\<forall>j<i. \<not> p (xs ! j))"
proof (induction xs arbitrary: i)
  case Nil
  then show ?case by simp
next
  case (Cons x xs)
  show ?case
  proof (cases "p x")
    case True
    then show ?thesis by (cases i) auto
  next
    case False
    show ?thesis
    proof (cases i)
      case 0
      with False show ?thesis by auto
    next
      case (Suc k)
      have "(\<forall>j<Suc k. \<not> p ((x # xs) ! j)) \<longleftrightarrow> (\<forall>j<k. \<not> p (xs ! j))"
        using False by (auto simp: less_Suc_eq_0_disj)
      with False Suc Cons.IH [of k] show ?thesis by auto
    qed
  qed
qed

lemma overlayFile_present:
  assumes "i < length xs" and "fileName (xs ! i) = fileName f"
    and "\<forall>j<i. fileName (xs ! j) \<noteq> fileName f"
  shows "overlayFile xs f = xs[i := f]"
proof -
  from assms have "findIndex (\<lambda>x. fileName x = fileName f) xs = Some i"
    by (simp add: findIndex_Some)
  then show ?thesis by (simp add: overlayFile_def)
qed

lemma overlayFile_absent:
  assumes "\<forall>x\<in>set xs. fileName x \<noteq> fileName f"
  shows "overlayFile xs f = xs @ [f]"
proof -
  from assms have "findIndex (\<lambda>x. fileName x = fileName f) xs = None"
    by (simp add: findIndex_None)
  then show ?thesis by (simp add: overlayFile_def)
qed

lemma overlayFile_untouched:
  "i < length xs \<Longrightarrow> fileName (xs ! i) \<noteq> fileName f \<Longrightarrow>
   i < length (overlayFile xs f) \<and> overlayFile xs f ! i = xs ! i"
  by (auto simp: overlayFile_def findIndex_Some nth_append nth_list_update split: option.splits)

lemma overlay_untouched:
  "i < length xs \<Longrightarrow> fileName (xs ! i) \<notin> fileName ` set ws \<Longrightarrow>
   i < length (overlay xs ws) \<and> overlay xs ws ! i = xs ! i"
proof (induction ws arbitrary: xs)
  case Nil
  then show ?case by simp
next
  case (Cons a ws)
  from Cons.prems have ne: "fileName (xs ! i) \<noteq> fileName a" by auto
  from overlayFile_untouched [OF Cons.prems(1) ne]
  have step: "i < length (overlayFile xs a)" "overlayFile xs a ! i = xs ! i" by auto
  from Cons.prems step have "fileName (overlayFile xs a ! i) \<notin> fileName ` set ws" by auto
  from Cons.IH [OF step(1) this] step show ?case by simp
qed

lemma overlay_foldl: "overlay xs ws = foldl overlayFile xs ws"
  by (induction ws arbitrary: xs) auto

text \<open>Appending a new working file, and replacing in place, in the spec's words.\<close>

lemma overlay_by_filename_snoc:
  assumes absent: "\<forall>x\<in>set xs. fileName x \<noteq> fileName a"
    and a_new: "\<forall>x\<in>set ws. fileName x \<noteq> fileName a"
  shows "overlay_by_filename (xs @ [a]) ws = overlay_by_filename xs (a # ws)"
proof -
  have find_a: "find (\<lambda>x. fileName x = fileName a) ws = None"
    using a_new by (simp add: find_None_iff)
  have m: "map (\<lambda>f. case find (\<lambda>x. fileName x = fileName f) ws of Some x \<Rightarrow> x | None \<Rightarrow> f) xs =
           map (\<lambda>f. case find (\<lambda>x. fileName x = fileName f) (a # ws) of Some x \<Rightarrow> x | None \<Rightarrow> f) xs"
    using absent by (intro map_cong) auto
  have f: "filter (\<lambda>x. fileName x \<notin> fileName ` set (xs @ [a])) ws =
           filter (\<lambda>x. fileName x \<notin> fileName ` set xs) ws"
    using a_new by (intro filter_cong) auto
  have a_out: "fileName a \<notin> fileName ` set xs"
    using absent by force
  show ?thesis
    unfolding overlay_by_filename_def f
    using m find_a a_out by simp
qed

lemma overlay_by_filename_update:
  assumes i: "i < length xs" "fileName (xs ! i) = fileName a"
    and others: "\<forall>j<length xs. j \<noteq> i \<longrightarrow> fileName (xs ! j) \<noteq> fileName a"
    and a_new: "\<forall>x\<in>set ws. fileName x \<noteq> fileName a"
  shows "overlay_by_filename (xs[i := a]) ws = overlay_by_filename xs (a # ws)"
proof -
  have find_a: "find (\<lambda>x. fileName x = fileName a) ws = None"
    using a_new by (simp add: find_None_iff)
  have names: "map fileName (xs[i := a]) = map fileName xs"
    using i by (simp add: map_update list_update_same_conv)
  have set_names: "fileName ` set (xs[i := a]) = fileName ` set xs"
    using names by (metis set_map)
  have a_in: "fileName a \<in> fileName ` set xs"
    using i by (metis imageI nth_mem)
  have m: "map (\<lambda>f. case find (\<lambda>x. fileName x = fileName f) ws of Some x \<Rightarrow> x | None \<Rightarrow> f)
             (xs[i := a]) =
           map (\<lambda>f. case find (\<lambda>x. fileName x = fileName f) (a # ws) of Some x \<Rightarrow> x | None \<Rightarrow> f) xs"
  proof (rule nth_equalityI)
    show "length (map (\<lambda>f. case find (\<lambda>x. fileName x = fileName f) ws of Some x \<Rightarrow> x | None \<Rightarrow> f)
             (xs[i := a])) =
          length (map (\<lambda>f. case find (\<lambda>x. fileName x = fileName f) (a # ws) of Some x \<Rightarrow> x | None \<Rightarrow> f) xs)"
      by simp
  next
    fix j
    assume "j < length (map (\<lambda>f. case find (\<lambda>x. fileName x = fileName f) ws of Some x \<Rightarrow> x | None \<Rightarrow> f)
             (xs[i := a]))"
    then have j: "j < length xs" by simp
    show "map (\<lambda>f. case find (\<lambda>x. fileName x = fileName f) ws of Some x \<Rightarrow> x | None \<Rightarrow> f)
             (xs[i := a]) ! j =
          map (\<lambda>f. case find (\<lambda>x. fileName x = fileName f) (a # ws) of Some x \<Rightarrow> x | None \<Rightarrow> f) xs ! j"
    proof (cases "j = i")
      case True
      with i find_a show ?thesis by simp
    next
      case False
      with others j have "fileName (xs ! j) \<noteq> fileName a" by simp
      then have "fileName a \<noteq> fileName (xs ! j)" by simp
      with False j show ?thesis by (simp split: option.splits)
    qed
  qed
  show ?thesis
    unfolding overlay_by_filename_def set_names m
    using a_in by simp
qed

text \<open>On lists of distinct file names the loop of the source computes the overlay of the
  spec's words.\<close>

lemma overlay_refines:
  "distinct (map fileName xs) \<Longrightarrow> distinct (map fileName ws) \<Longrightarrow>
   overlay xs ws = overlay_by_filename xs ws"
proof (induction ws arbitrary: xs)
  case Nil
  then show ?case by (simp add: overlay_by_filename_def)
next
  case (Cons a ws)
  from Cons.prems have dws: "distinct (map fileName ws)" by simp
  from Cons.prems have "fileName a \<notin> fileName ` set ws" by simp
  then have a_new: "\<forall>x\<in>set ws. fileName x \<noteq> fileName a" by (metis imageI)
  show ?case
  proof (cases "findIndex (\<lambda>x. fileName x = fileName a) xs")
    case None
    then have absent: "\<forall>x\<in>set xs. fileName x \<noteq> fileName a"
      by (simp add: findIndex_None)
    have step: "overlayFile xs a = xs @ [a]"
      using None by (simp add: overlayFile_def)
    have "fileName a \<notin> fileName ` set xs"
      using absent by force
    then have dist: "distinct (map fileName (xs @ [a]))"
      using Cons.prems(1) by simp
    have "overlay (xs @ [a]) ws = overlay_by_filename (xs @ [a]) ws"
      by (rule Cons.IH [OF dist dws])
    also have "\<dots> = overlay_by_filename xs (a # ws)"
      by (rule overlay_by_filename_snoc [OF absent a_new])
    finally show ?thesis by (simp add: step)
  next
    case (Some i)
    then have i: "i < length xs" "fileName (xs ! i) = fileName a"
      by (simp_all add: findIndex_Some)
    have step: "overlayFile xs a = xs[i := a]"
      using Some by (simp add: overlayFile_def)
    have names: "map fileName (xs[i := a]) = map fileName xs"
      using i by (simp add: map_update list_update_same_conv)
    have dist: "distinct (map fileName (xs[i := a]))"
      using Cons.prems(1) names by simp
    have others: "\<forall>j<length xs. j \<noteq> i \<longrightarrow> fileName (xs ! j) \<noteq> fileName a"
    proof (intro allI impI)
      fix j assume j: "j < length xs" "j \<noteq> i"
      have "(map fileName xs ! j = map fileName xs ! i) = (j = i)"
        using Cons.prems(1) j(1) i(1) by (intro nth_eq_iff_index_eq) simp_all
      with j i show "fileName (xs ! j) \<noteq> fileName a" by simp
    qed
    have "overlay (xs[i := a]) ws = overlay_by_filename (xs[i := a]) ws"
      by (rule Cons.IH [OF dist dws])
    also have "\<dots> = overlay_by_filename xs (a # ws)"
      by (rule overlay_by_filename_update [OF i others a_new])
    finally show ?thesis by (simp add: step)
  qed
qed

lemma getAheadFilesQuery_overlay:
  "compareWithWorkingTree n \<Longrightarrow> historicalFiles git n = Some fs \<Longrightarrow>
   workingTreeFiles git n = Some wfs \<Longrightarrow>
   fq_files (fst (getAheadFilesQuery git n w)) = Some (overlay fs wfs)"
  by (simp add: getAheadFilesQuery_def callDiffStatus_def filesResult_def historicalFiles_def
      workingTreeFiles_def)

lemma overlay_example: "overlay [fileA, fileB] [fileB', fileC] = [fileA, fileB', fileC]"
  by (simp add: overlayFile_def fileA_def fileB_def fileB'_def fileC_def)

text \<open>
  Claim C2. In the ahead-files query that compares with the working tree, with both diff
  statuses present, the files are the historical ones overlaid with the working-tree ones,
  one working-tree entry after the other. An entry whose file name is in the list replaces
  the (first) entry of that name in its place, an entry whose file name is not in the list
  is appended, and a historical entry whose file name no working-tree entry has stays where
  it is. On lists of distinct file names this is the overlay by file name of the spec's
  words. Historical \<open>[{A, modified}, {B, added}]\<close> with working-tree
  \<open>[{B, deleted}, {C, added}]\<close> gives \<open>[{A, modified}, {B, deleted}, {C, added}]\<close>.
\<close>

theorem aheadFiles_overlay:
  assumes "compareWithWorkingTree n" and "historicalFiles git n = Some fs"
    and "workingTreeFiles git n = Some wfs"
  shows "fq_files (fst (getAheadFilesQuery git n w)) = Some (overlay fs wfs) \<and>
    overlay fs wfs = foldl overlayFile fs wfs \<and>
    (\<forall>xs f i. i < length xs \<and> fileName (xs ! i) = fileName f \<and>
        (\<forall>j<i. fileName (xs ! j) \<noteq> fileName f) \<longrightarrow> overlayFile xs f = xs[i := f]) \<and>
    (\<forall>xs f. (\<forall>x\<in>set xs. fileName x \<noteq> fileName f) \<longrightarrow> overlayFile xs f = xs @ [f]) \<and>
    (\<forall>i<length fs. fileName (fs ! i) \<notin> fileName ` set wfs \<longrightarrow>
        i < length (overlay fs wfs) \<and> overlay fs wfs ! i = fs ! i) \<and>
    (distinct (map fileName fs) \<and> distinct (map fileName wfs) \<longrightarrow>
        overlay fs wfs = overlay_by_filename fs wfs) \<and>
    overlay [fileA, fileB] [fileB', fileC] = [fileA, fileB', fileC]"
proof (intro conjI)
  show "fq_files (fst (getAheadFilesQuery git n w)) = Some (overlay fs wfs)"
    using assms by (rule getAheadFilesQuery_overlay)
  show "overlay fs wfs = foldl overlayFile fs wfs"
    by (rule overlay_foldl)
  show "\<forall>xs f i. i < length xs \<and> fileName (xs ! i) = fileName f \<and>
        (\<forall>j<i. fileName (xs ! j) \<noteq> fileName f) \<longrightarrow> overlayFile xs f = xs[i := f]"
    using overlayFile_present by blast
  show "\<forall>xs f. (\<forall>x\<in>set xs. fileName x \<noteq> fileName f) \<longrightarrow> overlayFile xs f = xs @ [f]"
    using overlayFile_absent by blast
  show "\<forall>i<length fs. fileName (fs ! i) \<notin> fileName ` set wfs \<longrightarrow>
        i < length (overlay fs wfs) \<and> overlay fs wfs ! i = fs ! i"
    using overlay_untouched by blast
  show "distinct (map fileName fs) \<and> distinct (map fileName wfs) \<longrightarrow>
        overlay fs wfs = overlay_by_filename fs wfs"
    using overlay_refines by blast
  show "overlay [fileA, fileB] [fileB', fileC] = [fileA, fileB', fileC]"
    by (rule overlay_example)
qed

text \<open>The spec's example, through the query of a node that compares with the working tree.\<close>

theorem aheadFiles_overlay_witness:
  "compareWithWorkingTree exWorkingNode \<and>
   historicalFiles exGit exWorkingNode = Some [fileA, fileB] \<and>
   workingTreeFiles exGit exWorkingNode = Some [fileB', fileC] \<and>
   fq_files (fst (getAheadFilesQuery exGit exWorkingNode exEmptyWorld)) =
     Some [fileA, fileB', fileC] \<and>
   overlay_by_filename [fileA, fileB] [fileB', fileC] = [fileA, fileB', fileC]"
proof -
  have wt: "compareWithWorkingTree exWorkingNode"
    by (simp add: compareWithWorkingTree_def comparisonType_def exWorkingNode_def
        exWorkingTarget_def exNode_def)
  have h: "historicalFiles exGit exWorkingNode = Some [fileA, fileB]"
    by (simp add: historicalFiles_def exGit_def createRange_def compareWithRef_def or_else_def
        exWorkingNode_def exWorkingTarget_def exNode_def exBranch_def)
  have k: "workingTreeFiles exGit exWorkingNode = Some [fileB', fileC]"
    by (simp add: workingTreeFiles_def exGit_def)
  have d: "distinct (map fileName [fileA, fileB]) \<and> distinct (map fileName [fileB', fileC])"
    by (simp add: fileA_def fileB_def fileB'_def fileC_def)
  from aheadFiles_overlay [OF wt h k, of exEmptyWorld]
  have a: "fq_files (fst (getAheadFilesQuery exGit exWorkingNode exEmptyWorld)) =
             Some (overlay [fileA, fileB] [fileB', fileC])"
    and r: "distinct (map fileName [fileA, fileB]) \<and> distinct (map fileName [fileB', fileC]) \<longrightarrow>
             overlay [fileA, fileB] [fileB', fileC] = overlay_by_filename [fileA, fileB] [fileB', fileC]"
    and e: "overlay [fileA, fileB] [fileB', fileC] = [fileA, fileB', fileC]"
    by blast+
  from r d e have "overlay_by_filename [fileA, fileB] [fileB', fileC] = [fileA, fileB', fileC]"
    by metis
  with wt h k a e show ?thesis by metis
qed

subsection \<open>The merge base of getChildren\<close>

text \<open>
  Claim C3, as the code has it. On a node with a target and no cached children,
  \<open>getChildren\<close> asks for the commit counts, then for the fork-point merge base, and asks
  for the plain merge base exactly when the fork-point one is undefined; the merge base is
  the first of the two that is defined. With a merge base \<open>m\<close> the files \<open>ref1\<close> of the ahead
  child is \<open>m\<close>, and with none it is \<open>ahead.ref1\<close>. The files \<open>ref1\<close> of the behind child is
  \<open>m\<close>, or \<open>behind.ref1\<close> with none, when the node does not compare with the working tree;
  when it does, it is the empty string, merge base or not.
\<close>

theorem mergeBase_fallback:
  assumes "p_compareWith n = Some cw" and "p_children n = None"
  shows
   "events (snd (snd (getChildren git n w))) =
      events w @ [CountCall (b_repoPath (branch n))
                    [createRange (ref1 (behind n)) (ref2 (behind n)) ThreeDot],
                  MergeBaseCall (repoPath n) (ref1 (behind n)) (ref2 (behind n)) True]
        @ (if getMergeBase git (repoPath n) (ref1 (behind n)) (ref2 (behind n)) True = None
           then [MergeBaseCall (repoPath n) (ref1 (behind n)) (ref2 (behind n)) False] else []) \<and>
    length (fst (getChildren git n w)) = 3 \<and>
    (\<forall>m. getMergeBase git (repoPath n) (ref1 (behind n)) (ref2 (behind n)) True = Some m \<or>
         getMergeBase git (repoPath n) (ref1 (behind n)) (ref2 (behind n)) True = None \<and>
         getMergeBase git (repoPath n) (ref1 (behind n)) (ref2 (behind n)) False = Some m \<longrightarrow>
       files_ref1 (rcn_files (fst (getChildren git n w) ! 0)) =
         (if compareWithWorkingTree n then [] else m) \<and>
       files_ref1 (rcn_files (fst (getChildren git n w) ! 1)) = m) \<and>
    (getMergeBase git (repoPath n) (ref1 (behind n)) (ref2 (behind n)) True = None \<and>
     getMergeBase git (repoPath n) (ref1 (behind n)) (ref2 (behind n)) False = None \<longrightarrow>
       files_ref1 (rcn_files (fst (getChildren git n w) ! 0)) =
         (if compareWithWorkingTree n then [] else ref1 (behind n)) \<and>
       files_ref1 (rcn_files (fst (getChildren git n w) ! 1)) = ref1 (ahead n))"
  using assms
  by (auto simp add: getChildren_def resolveMergeBase_def callMergeBase_def buildChildren_def
      orRef_def Let_def split: option.splits prod.splits)

text \<open>A repository whose fork-point merge base is missing and whose plain one is \<open>abc123\<close>,
  and one with no merge base at all.\<close>

theorem mergeBase_fallback_witness:
  "p_compareWith exConfigured = Some exTarget \<and> p_children exConfigured = None \<and>
   events (snd (snd (getChildren exGitPlainBase exConfigured exEmptyWorld))) =
     [CountCall ''/repo'' [''feature...main''],
      MergeBaseCall ''/repo'' ''feature'' ''main'' True,
      MergeBaseCall ''/repo'' ''feature'' ''main'' False] \<and>
   files_ref1 (rcn_files (fst (getChildren exGitPlainBase exConfigured exEmptyWorld) ! 0)) = ''abc123'' \<and>
   files_ref1 (rcn_files (fst (getChildren exGitPlainBase exConfigured exEmptyWorld) ! 1)) = ''abc123'' \<and>
   files_ref1 (rcn_files (fst (getChildren exGit exConfigured exEmptyWorld) ! 0)) = ''feature'' \<and>
   files_ref1 (rcn_files (fst (getChildren exGit exConfigured exEmptyWorld) ! 1)) = ''main''"
proof -
  have c: "p_compareWith exConfigured = Some exTarget" and k: "p_children exConfigured = None"
    by (simp_all add: exConfigured_def exNode_def)
  show ?thesis
    using c k mergeBase_fallback [OF c k, of exGitPlainBase exEmptyWorld]
      mergeBase_fallback [OF c k, of exGit exEmptyWorld]
    by (simp add: exGitPlainBase_def exGit_def exEmptyWorld_def exConfigured_def exNode_def
        exTarget_def exBranch_def behind_def ahead_def repoPath_def compareWithRef_def
        or_else_def createRange_def compareWithWorkingTree_def comparisonType_def)
qed

text \<open>
  Claim C3 as stated fails: on a node that compares with the working tree, in a repository
  where neither merge base resolves, the files \<open>ref1\<close> of the behind child is the empty
  string and not \<open>behind.ref1\<close>, which is \<open>feature\<close>.
\<close>

theorem behind_files_ref1_working_tree:
  "p_compareWith exWorkingNode = Some exWorkingTarget \<and> p_children exWorkingNode = None \<and>
   getMergeBase exGit ''/repo'' ''feature'' ''main'' True = None \<and>
   getMergeBase exGit ''/repo'' ''feature'' ''main'' False = None \<and>
   ref1 (behind exWorkingNode) = ''feature'' \<and>
   files_ref1 (rcn_files (fst (getChildren exGit exWorkingNode exEmptyWorld) ! 0)) = []"
  by (simp add: model_defs example_defs Let_def)

subsection \<open>The commits query and its continuation\<close>

text \<open>
  Claim C1, as the code has it. The results of a commits query hold the log that \<open>getLog\<close>
  returned, \<open>hasMore\<close> is that log's (true without a log), and \<open>more\<close> is present exactly
  when this first \<open>hasMore\<close> is true. Calling \<open>more(limit)\<close> asks the held log's own
  continuation: when there is none, or it returns nothing, the held log and with it the
  entries stay as they are; when it returns a log, that log replaces the held one, so the
  entries so far are kept as a prefix whenever the returned log extends them. In both
  cases \<open>hasMore\<close> becomes that of the log now held.
\<close>

theorem commitsQuery_more:
  "cr_log (fst (runCommitsQuery git (getCommitsQuery n rng) limit w)) =
     getLog git (uri_repoPath n) limit rng \<and>
   cr_hasMore (fst (runCommitsQuery git (getCommitsQuery n rng) limit w)) =
     hasMoreOf (getLog git (uri_repoPath n) limit rng) \<and>
   cr_more (fst (runCommitsQuery git (getCommitsQuery n rng) limit w)) =
     cr_hasMore (fst (runCommitsQuery git (getCommitsQuery n rng) limit w)) \<and>
   (logMore (cr_log r) lim = None \<longrightarrow>
      cr_log (results_more lim r) = cr_log r \<and> entries (results_more lim r) = entries r) \<and>
   (\<forall>l. logMore (cr_log r) lim = Some l \<longrightarrow>
      cr_log (results_more lim r) = Some l \<and> entries (results_more lim r) = commits l \<and>
      (prefix (entries r) (commits l) \<longrightarrow> prefix (entries r) (entries (results_more lim r)))) \<and>
   cr_hasMore (results_more lim r) = hasMoreOf (cr_log (results_more lim r))"
  by (simp add: runCommitsQuery_def getCommitsQuery_def results_more_def entries_def Let_def)

text \<open>The first page, the second page that extends it, and a log without a continuation.\<close>

theorem commitsQuery_more_witness:
  "entries exResults = [''c3'', ''c2''] \<and> cr_hasMore exResults \<and> cr_more exResults \<and>
   logMore (cr_log exResults) (Some 2) = Some exLog2 \<and>
   prefix (entries exResults) (commits exLog2) \<and>
   prefix (entries exResults) (entries (results_more (Some 2) exResults)) \<and>
   cr_hasMore (results_more (Some 2) exResults) = False \<and>
   logMore (cr_log (results_more (Some 2) (results_more (Some 2) exResults))) (Some 2) = None \<and>
   entries (results_more (Some 2) (results_more (Some 2) (results_more (Some 2) exResults))) =
     entries (results_more (Some 2) (results_more (Some 2) exResults))"
  using commitsQuery_more [of exGit exConfigured "''main..feature''" "Some 2" exEmptyWorld
      exResults "Some 2"]
    commitsQuery_more [of exGit exConfigured "''main..feature''" "Some 2" exEmptyWorld
      "results_more (Some 2) (results_more (Some 2) exResults)" "Some 2"]
  by (simp add: exResults_def model_defs example_defs Let_def)

text \<open>
  Claim C1 as stated fails: after the call of \<open>more\<close> that sets \<open>hasMore\<close> to false, \<open>more\<close>
  is still there, and calling it again follows the continuation of the held log, which
  here returns one more commit: the entries change.
\<close>

theorem more_after_exhausted:
  "cr_more exResults \<and>
   cr_hasMore (results_more None exResults) = False \<and>
   cr_more (results_more None exResults) \<and>
   entries (results_more None exResults) = [''c3'', ''c2'', ''c1''] \<and>
   entries (results_more None (results_more None exResults)) = [''c3'', ''c2'', ''c1'', ''c0'']"
  by (simp add: exResults_def model_defs example_defs Let_def)


end
